theory Spec2Isabelle
  imports Complex_Main "HOL-Library.Word"
begin

section \<open>Speech service: data model\<close>

text \<open>
  A shallow embedding of \<^verbatim>\<open>python_service/services/speech_service.py\<close>.
  Python floats are modelled as exact reals (no rounding, no NaN, no infinities), Python
  strings and byte strings as lists, and every exception as a value: an exception of an
  external library is represented by its message (what \<^verbatim>\<open>str(e)\<close> returns).
  Logging is not modelled.
\<close>

type_synonym bytes = "8 word list"

text \<open>The errors a caller of the service observes: a \<^verbatim>\<open>RuntimeError\<close> raised by the
  service itself, or an exception of a model loader that \<^verbatim>\<open>initialize\<close> re-raises
  unchanged.\<close>

datatype error = RuntimeError string | Raised string

text \<open>One entry of \<^verbatim>\<open>result["segments"]\<close>: a dictionary from keys to numbers.\<close>

type_synonym segment = "string \<rightharpoonup> real"

text \<open>The dictionary the Whisper engine returns. Each key may be absent.\<close>

record whisper_result =
  res_text :: "string option"
  res_language :: "string option"
  res_duration :: "real option"
  res_segments :: "segment list option"

text \<open>The dictionary \<^verbatim>\<open>transcribe_audio\<close> returns.\<close>

record transcription =
  out_text :: string
  out_language :: string
  out_confidence :: real
  out_duration :: real

text \<open>The Whisper handle: \<^verbatim>\<open>model.transcribe(audio_path, **options)\<close>, where the options
  are either empty or carry the language. The Kokoro handle: \<^verbatim>\<open>pipeline(text, voice=voice)\<close>,
  drained; it yields the audio chunks in emission order, or raises.\<close>

type_synonym whisper_model = "string \<Rightarrow> string option \<Rightarrow> string + whisper_result"
type_synonym kokoro_pipeline = "string \<Rightarrow> string \<Rightarrow> string + real list list"

text \<open>Calls that leave the service: model loads, inference calls handed to the executor,
  and the accelerator cache reset.\<close>

datatype event =
    LoadWhisper
  | LoadKokoro
  | RunTranscribe string string
  | RunSynthesize string string
  | CudaEmptyCache

text \<open>The \<^verbatim>\<open>SpeechService\<close> object (\<open>whisper_model\<close>, \<open>kokoro_pipeline\<close>,
  \<open>initialized\<close> for \<^verbatim>\<open>_initialized\<close>), together with the part of the world its methods
  act on: the paths present on persistent storage and the trace of external calls.\<close>

record service =
  whisper_model :: "whisper_model option"
  kokoro_pipeline :: "kokoro_pipeline option"
  initialized :: bool
  files :: "string set"
  calls :: "event list"

text \<open>The external collaborators, as they behave during one call:
  \<^item> \<open>load_whisper\<close>: \<^verbatim>\<open>whisper.load_model("turbo")\<close>, a handle or an exception;
  \<^item> \<open>load_kokoro\<close>: \<^verbatim>\<open>KPipeline(lang_code='a')\<close>, a handle or an exception;
  \<^item> \<open>named_temporary_file\<close>: \<^verbatim>\<open>tempfile.NamedTemporaryFile(suffix=".wav", delete=False)\<close>,
    the path of the file it created, or an exception;
  \<^item> \<open>write_file\<close>: \<^verbatim>\<open>temp_file.write(audio_data)\<close> and the close at the end of the
    \<^verbatim>\<open>with\<close> block, \<open>None\<close> when both succeed, the exception otherwise;
  \<^item> \<open>librosa\<close>: \<open>None\<close> when \<^verbatim>\<open>import librosa\<close> raises \<^verbatim>\<open>ImportError\<close>, otherwise
    \<^verbatim>\<open>librosa.effects.time_stretch\<close>;
  \<^item> \<open>sf_write\<close>: \<^verbatim>\<open>sf.write(buffer, audio, sample_rate, format='WAV')\<close> followed by reading
    the buffer back;
  \<^item> \<open>cuda_is_available\<close>: \<^verbatim>\<open>torch.cuda.is_available()\<close>.\<close>

record env =
  load_whisper :: "string + whisper_model"
  load_kokoro :: "string + kokoro_pipeline"
  named_temporary_file :: "string + string"
  write_file :: "bytes \<Rightarrow> string option"
  librosa :: "(real list \<Rightarrow> real \<Rightarrow> string + real list) option"
  sf_write :: "real list \<Rightarrow> nat \<Rightarrow> string + bytes"
  cuda_is_available :: bool

section \<open>Model lifecycle\<close>

definition init_service :: "string set \<Rightarrow> service" where
  "init_service fs =
     \<lparr>whisper_model = None, kokoro_pipeline = None, initialized = False,
      files = fs, calls = []\<rparr>"

definition initialize :: "env \<Rightarrow> service \<Rightarrow> (error + unit) \<times> service" where
  "initialize e s =
     (if initialized s then (Inr (), s)
      else
        (let s0 = s\<lparr>calls := calls s @ [LoadWhisper]\<rparr> in
         (case load_whisper e of
            Inl ex \<Rightarrow> (Inl (Raised ex), s0)
          | Inr m \<Rightarrow>
              (let s1 = s0\<lparr>whisper_model := Some m\<rparr>;
                   s2 = s1\<lparr>calls := calls s1 @ [LoadKokoro]\<rparr>
               in (case load_kokoro e of
                     Inl ex \<Rightarrow> (Inl (Raised ex), s2)
                   | Inr k \<Rightarrow>
                       (Inr (), s2\<lparr>kokoro_pipeline := Some k, initialized := True\<rparr>))))))"

definition get_health_status :: "service \<Rightarrow> (string \<rightharpoonup> bool)" where
  "get_health_status s =
     [''whisper'' \<mapsto> whisper_model s \<noteq> None,
      ''kokoro'' \<mapsto> kokoro_pipeline s \<noteq> None,
      ''initialized'' \<mapsto> initialized s]"

definition cleanup :: "env \<Rightarrow> service \<Rightarrow> (error + unit) \<times> service" where
  "cleanup e s =
     (let s1 = (if whisper_model s \<noteq> None then s\<lparr>whisper_model := None\<rparr> else s);
          s2 = (if kokoro_pipeline s1 \<noteq> None then s1\<lparr>kokoro_pipeline := None\<rparr> else s1);
          s3 = (if cuda_is_available e then s2\<lparr>calls := calls s2 @ [CudaEmptyCache]\<rparr> else s2)
      in (Inr (), s3\<lparr>initialized := False\<rparr>))"

section \<open>Transcription pipeline\<close>

definition transcribe_sync :: "whisper_model \<Rightarrow> string \<Rightarrow> string \<Rightarrow> string + whisper_result" where
  "transcribe_sync model audio_path language =
     model audio_path (if language \<noteq> ''auto'' then Some language else None)"

definition calculate_confidence :: "whisper_result \<Rightarrow> real" where
  "calculate_confidence result =
     (case res_segments result of
        None \<Rightarrow> 0.8
      | Some segs \<Rightarrow>
          if segs \<noteq> [] then
            let probs = map (\<lambda>seg. case seg ''avg_logprob'' of None \<Rightarrow> 0 | Some v \<Rightarrow> v) segs
            in if probs \<noteq> [] then
                 let avg_logprob = sum_list probs / real (length probs)
                 in max 0 (min 1 (exp avg_logprob))
               else 0.8
          else 0.8)"

text \<open>\<^verbatim>\<open>str.strip()\<close>, with a character read as a code point below 256: the
  characters Python counts as whitespace there are 0x09 to 0x0D, 0x1C to 0x1F, the
  space, 0x85 and 0xA0.\<close>

definition isspace :: "char \<Rightarrow> bool" where
  "isspace c =
     (c \<in> set [CHR 0x09, CHR 0x0A, CHR 0x0B, CHR 0x0C, CHR 0x0D,
               CHR 0x1C, CHR 0x1D, CHR 0x1E, CHR 0x1F, CHR 0x20, CHR 0x85, CHR 0xA0])"

definition strip :: "string \<Rightarrow> string" where
  "strip t = rev (dropWhile isspace (rev (dropWhile isspace t)))"

text \<open>The dictionary literal of \<^verbatim>\<open>transcribe_audio\<close>. \<^verbatim>\<open>result["text"]\<close> raises
  \<^verbatim>\<open>KeyError\<close> on a missing key; the other keys are read with a default.\<close>

definition build_transcription :: "whisper_result \<Rightarrow> string + transcription" where
  "build_transcription result =
     (case res_text result of
        None \<Rightarrow> Inl ([CHR 0x27] @ ''text'' @ [CHR 0x27])
      | Some t \<Rightarrow>
          Inr \<lparr>out_text = strip t,
               out_language = (case res_language result of None \<Rightarrow> ''unknown'' | Some l \<Rightarrow> l),
               out_confidence = calculate_confidence result,
               out_duration = (case res_duration result of None \<Rightarrow> 0 | Some d \<Rightarrow> d)\<rparr>)"

text \<open>\<^verbatim>\<open>if os.path.exists(temp_file_path): os.unlink(temp_file_path)\<close>\<close>

definition unlink_if_exists :: "string \<Rightarrow> service \<Rightarrow> service" where
  "unlink_if_exists p s = (if p \<in> files s then s\<lparr>files := files s - {p}\<rparr> else s)"

text \<open>The guard is outside the outer \<^verbatim>\<open>try\<close>, so its error is not wrapped. The
  \<^verbatim>\<open>with\<close> block that creates and fills the staging file is inside the outer
  \<^verbatim>\<open>try\<close> but before the inner \<^verbatim>\<open>try ... finally\<close>; only the inference and the
  construction of the result are covered by the \<^verbatim>\<open>finally\<close>.\<close>

definition transcribe_audio ::
  "env \<Rightarrow> service \<Rightarrow> bytes \<Rightarrow> string \<Rightarrow> (error + transcription) \<times> service" where
  "transcribe_audio e s audio_data language =
     (if \<not> initialized s \<or> whisper_model s = None
      then (Inl (RuntimeError ''Whisper model not initialized''), s)
      else
        (case named_temporary_file e of
           Inl ex \<Rightarrow> (Inl (RuntimeError (''Transcription failed: '' @ ex)), s)
         | Inr temp_file_path \<Rightarrow>
             (let s1 = s\<lparr>files := insert temp_file_path (files s)\<rparr> in
              (case write_file e audio_data of
                 Some ex \<Rightarrow> (Inl (RuntimeError (''Transcription failed: '' @ ex)), s1)
               | None \<Rightarrow>
                   (let s2 = s1\<lparr>calls := calls s1 @ [RunTranscribe temp_file_path language]\<rparr>;
                        body =
                          (case whisper_model s of
                             None \<Rightarrow> Inl ''NoneType object has no attribute transcribe''
                           | Some model \<Rightarrow>
                               (case transcribe_sync model temp_file_path language of
                                  Inl ex \<Rightarrow> Inl ex
                                | Inr result \<Rightarrow> build_transcription result));
                        s3 = unlink_if_exists temp_file_path s2
                    in (case body of
                          Inl ex \<Rightarrow> (Inl (RuntimeError (''Transcription failed: '' @ ex)), s3)
                        | Inr t \<Rightarrow> (Inr t, s3)))))))"

section \<open>Synthesis pipeline\<close>

definition synthesize_sync :: "kokoro_pipeline \<Rightarrow> string \<Rightarrow> string \<Rightarrow> string + real list" where
  "synthesize_sync pipeline txt voice =
     (case pipeline txt voice of
        Inl ex \<Rightarrow> Inl ex
      | Inr audio_segments \<Rightarrow>
          Inr (if audio_segments \<noteq> [] then concat audio_segments else replicate 24000 0))"

text \<open>\<^verbatim>\<open>int(x)\<close> on a float truncates towards zero.\<close>

definition py_int :: "real \<Rightarrow> int" where
  "py_int x = (if 0 \<le> x then \<lfloor>x\<rfloor> else \<lceil>x\<rceil>)"

text \<open>\<^verbatim>\<open>audio[::step]\<close>: the elements at the indices of \<^verbatim>\<open>range(0, len(audio), step)\<close>
  for a positive step, those of \<^verbatim>\<open>range(len(audio) - 1, -1, step)\<close> for a negative one,
  \<^verbatim>\<open>ValueError\<close> for step zero.\<close>

definition stride :: "'a list \<Rightarrow> nat \<Rightarrow> 'a list" where
  "stride a k = map (\<lambda>i. a ! (i * k)) [0..<(length a + k - 1) div k]"

definition np_slice_step :: "'a list \<Rightarrow> int \<Rightarrow> string + 'a list" where
  "np_slice_step a step =
     (if step = 0 then Inl ''slice step cannot be zero''
      else if 0 < step then Inr (stride a (nat step))
      else Inr (stride (rev a) (nat (- step))))"

text \<open>\<^verbatim>\<open>np.repeat(audio, repeats)\<close> with a scalar count: element \<open>i\<close> of the output is
  element \<open>i div repeats\<close> of the input; a negative count is a \<^verbatim>\<open>ValueError\<close>.\<close>

definition np_repeat :: "'a list \<Rightarrow> int \<Rightarrow> string + 'a list" where
  "np_repeat a repeats =
     (if repeats < 0 then Inl ''negative dimensions are not allowed''
      else Inr (map (\<lambda>i. a ! (i div nat repeats)) [0..<length a * nat repeats]))"

text \<open>Only \<^verbatim>\<open>ImportError\<close> selects the fallback; any other exception of the time-stretch
  library propagates. \<^verbatim>\<open>1.0 / speed\<close> raises \<^verbatim>\<open>ZeroDivisionError\<close> at speed zero.\<close>

definition adjust_speed :: "env \<Rightarrow> real list \<Rightarrow> real \<Rightarrow> string + real list" where
  "adjust_speed e audio speed =
     (if speed = 1 then Inr audio
      else
        case librosa e of
          Some time_stretch \<Rightarrow> time_stretch audio speed
        | None \<Rightarrow>
            if speed > 1 then
              let step = py_int speed in np_slice_step audio step
            else if speed = 0 then Inl ''float division by zero''
            else
              let repeat = py_int (1 / speed) in np_repeat audio repeat)"

definition audio_to_wav_bytes :: "env \<Rightarrow> real list \<Rightarrow> nat \<Rightarrow> string + bytes" where
  "audio_to_wav_bytes e audio sample_rate = sf_write e audio sample_rate"

text \<open>The \<open>pitch\<close> argument is accepted and never read.\<close>

definition synthesize_speech ::
  "env \<Rightarrow> service \<Rightarrow> string \<Rightarrow> string \<Rightarrow> real \<Rightarrow> real \<Rightarrow> (error + bytes) \<times> service" where
  "synthesize_speech e s txt voice speed pitch =
     (if \<not> initialized s \<or> kokoro_pipeline s = None
      then (Inl (RuntimeError ''Kokoro pipeline not initialized''), s)
      else
        (let s1 = s\<lparr>calls := calls s @ [RunSynthesize txt voice]\<rparr>;
             body =
               (case kokoro_pipeline s of
                  None \<Rightarrow> Inl ''NoneType object is not callable''
                | Some pipeline \<Rightarrow>
                    (case synthesize_sync pipeline txt voice of
                       Inl ex \<Rightarrow> Inl ex
                     | Inr audio_data \<Rightarrow>
                         (case (if speed \<noteq> 1 then adjust_speed e audio_data speed
                                else Inr audio_data) of
                            Inl ex \<Rightarrow> Inl ex
                          | Inr adjusted \<Rightarrow> audio_to_wav_bytes e adjusted 24000)))
         in (case body of
               Inl ex \<Rightarrow> (Inl (RuntimeError (''Speech synthesis failed: '' @ ex)), s1)
             | Inr wav_bytes \<Rightarrow> (Inr wav_bytes, s1))))"

section \<open>Notions of the specification\<close>

text \<open>The specification's words for the confidence heuristic:
  \<^verbatim>\<open>clamp(exp(mean(avg_logprob)), 0.0, 1.0)\<close>.\<close>

definition mean :: "real list \<Rightarrow> real" where
  "mean xs = sum_list xs / real (length xs)"

definition clamp :: "real \<Rightarrow> real \<Rightarrow> real \<Rightarrow> real" where
  "clamp x lo hi = (if x < lo then lo else if hi < x then hi else x)"

text \<open>The specification's words for the fallback resampling: keep every \<open>k\<close>-th sample
  (take one, skip the next \<open>k - 1\<close>), and repeat each sample \<open>r\<close> times.\<close>

fun keep_every :: "nat \<Rightarrow> 'a list \<Rightarrow> 'a list" where
  "keep_every k [] = []"
| "keep_every k (x # xs) = x # keep_every k (drop (k - 1) xs)"

definition repeat_each :: "nat \<Rightarrow> 'a list \<Rightarrow> 'a list" where
  "repeat_each r xs = concat (map (replicate r) xs)"

text \<open>One second of silence at 24000 Hz.\<close>

definition one_second_of_silence :: "real list" where
  "one_second_of_silence = replicate 24000 0"

section \<open>A reference environment\<close>

text \<open>A stand-in for the container writer, used where a concrete environment is needed:
  the canonical 44-byte RIFF/WAVE header for one channel of 16-bit PCM, followed by two
  bytes per sample, little-endian. A sample is scaled by 32768, clipped to the 16-bit
  range and rounded to the nearest integer, ties to even.\<close>

definition u16le :: "nat \<Rightarrow> bytes" where
  "u16le n = [of_nat (n mod 256), of_nat (n div 256 mod 256)]"

definition u32le :: "nat \<Rightarrow> bytes" where
  "u32le n = u16le (n mod 65536) @ u16le (n div 65536 mod 65536)"

definition ascii :: "string \<Rightarrow> bytes" where
  "ascii t = map (\<lambda>c. of_nat (of_char c)) t"

definition round_half_even :: "real \<Rightarrow> int" where
  "round_half_even y =
     (let f = \<lfloor>y\<rfloor> in
      if y - of_int f < 1 / 2 then f
      else if 1 / 2 < y - of_int f then f + 1
      else if even f then f else f + 1)"

definition pcm16 :: "real \<Rightarrow> bytes" where
  "pcm16 x =
     (let scaled = x * 32768;
          v = (if 32767 \<le> scaled then 32767
               else if scaled \<le> - 32768 then - 32768
               else round_half_even scaled)
      in u16le (nat (v mod 65536)))"

definition wav_file_bytes :: "real list \<Rightarrow> nat \<Rightarrow> bytes" where
  "wav_file_bytes audio sample_rate =
     ascii ''RIFF'' @ u32le (36 + 2 * length audio) @ ascii ''WAVE''
     @ ascii ''fmt '' @ u32le 16 @ u16le 1 @ u16le 1
     @ u32le sample_rate @ u32le (2 * sample_rate) @ u16le 2 @ u16le 16
     @ ascii ''data'' @ u32le (2 * length audio) @ concat (map pcm16 audio)"

definition wav_pcm16 :: "real list \<Rightarrow> nat \<Rightarrow> string + bytes" where
  "wav_pcm16 audio sample_rate = Inr (wav_file_bytes audio sample_rate)"

text \<open>Handles that answer every request the same way.\<close>

definition segment_with :: "real \<Rightarrow> segment" where
  "segment_with v = [''avg_logprob'' \<mapsto> v]"

definition whisper_hello :: whisper_model where
  "whisper_hello audio_path lang =
     Inr \<lparr>res_text = Some '' hello '', res_language = Some ''en'', res_duration = Some 1,
          res_segments = Some [segment_with 0]\<rparr>"

definition whisper_failing :: whisper_model where
  "whisper_failing audio_path lang = Inl ''CUDA out of memory''"

definition kokoro_silent :: kokoro_pipeline where
  "kokoro_silent txt voice = Inr []"

definition kokoro_chunks :: kokoro_pipeline where
  "kokoro_chunks txt voice = Inr ([1 / 2, 1 / 4] # [0, - 1 / 2] # [])"

text \<open>Everything loads, the staging file is written, the time-stretch library is missing.\<close>

definition env_ok :: env where
  "env_ok =
     \<lparr>load_whisper = Inr whisper_hello, load_kokoro = Inr kokoro_silent,
      named_temporary_file = Inr ''/tmp/tmpa1b2c3.wav'', write_file = (\<lambda>b. None),
      librosa = None, sf_write = wav_pcm16, cuda_is_available = False\<rparr>"

text \<open>A stand-in for the time-stretch library where a present one is needed: it resamples
  to \<open>\<lfloor>n / rate\<rfloor>\<close> samples, taking the sample at the scaled index. Only the length of
  its result is like the library's.\<close>

definition time_stretch_nearest :: "real list \<Rightarrow> real \<Rightarrow> string + real list" where
  "time_stretch_nearest audio rate =
     Inr (map (\<lambda>i. audio ! nat \<lfloor>real i * rate\<rfloor>) [0..<nat \<lfloor>real (length audio) / rate\<rfloor>])"

text \<open>As \<open>env_ok\<close>, but the time-stretch library is present.\<close>

definition env_librosa :: env where
  "env_librosa = env_ok\<lparr>librosa := Some time_stretch_nearest\<rparr>"

text \<open>As \<open>env_ok\<close>, but the disk is full: the staging file is created and the write to
  it raises.\<close>

definition env_disk_full :: env where
  "env_disk_full = env_ok\<lparr>write_file := (\<lambda>b. Some ''[Errno 28] No space left on device'')\<rparr>"

text \<open>As \<open>env_ok\<close>, but the second model fails to load.\<close>

definition env_kokoro_fails :: env where
  "env_kokoro_fails = env_ok\<lparr>load_kokoro := Inl ''voice pack not found''\<rparr>"

text \<open>A service whose two models are loaded, on empty storage; the same after a first
  successful \<open>initialize\<close>; a service whose first model is loaded while the second
  failed to load; a service whose speech engine fails; a service whose synthesis engine
  yields two chunks.\<close>

definition ready_service :: service where
  "ready_service =
     \<lparr>whisper_model = Some whisper_hello, kokoro_pipeline = Some kokoro_silent,
      initialized = True, files = {}, calls = []\<rparr>"

definition loaded_service :: service where
  "loaded_service = ready_service\<lparr>calls := [LoadWhisper, LoadKokoro]\<rparr>"

definition half_loaded_service :: service where
  "half_loaded_service =
     \<lparr>whisper_model = Some whisper_hello, kokoro_pipeline = None,
      initialized = False, files = {}, calls = [LoadWhisper, LoadKokoro]\<rparr>"

definition failing_engine_service :: service where
  "failing_engine_service = ready_service\<lparr>whisper_model := Some whisper_failing\<rparr>"

definition ready_chunks_service :: service where
  "ready_chunks_service = ready_service\<lparr>kokoro_pipeline := Some kokoro_chunks\<rparr>"

text \<open>Engine results: two segments with log-probabilities, no segments at all, and two
  segments that carry no log-probability.\<close>

definition result_two_segments :: whisper_result where
  "result_two_segments =
     \<lparr>res_text = Some ''turn left'', res_language = Some ''en'', res_duration = Some 2,
      res_segments = Some [segment_with (ln (1 / 4)), segment_with 0]\<rparr>"

definition result_no_segments :: whisper_result where
  "result_no_segments =
     \<lparr>res_text = Some [], res_language = None, res_duration = None, res_segments = None\<rparr>"

definition result_bare_segments :: whisper_result where
  "result_bare_segments =
     \<lparr>res_text = Some ''ok'', res_language = Some ''en'', res_duration = Some 1,
      res_segments = Some [Map.empty, [''text'' \<mapsto> 5]]\<rparr>"

section \<open>Auxiliary facts\<close>

subsection \<open>Slicing and repetition\<close>

lemma stride_Nil: "0 < k \<Longrightarrow> stride [] k = []"
  by (simp add: stride_def)

lemma stride_Cons:
  assumes "0 < k"
  shows "stride (x # xs) k = x # stride (drop (k - 1) xs) k"
proof -
  have cnt: "(length (x # xs) + k - 1) div k = Suc (length xs div k)"
    using assms by simp
  have cnt': "(length (drop (k - 1) xs) + k - 1) div k = length xs div k"
  proof (cases "k - 1 \<le> length xs")
    case True
    then show ?thesis using assms by simp
  next
    case False
    then have "length xs < k" by simp
    with False assms show ?thesis by simp
  qed
  have shift: "(x # xs) ! (Suc i * k) = drop (k - 1) xs ! (i * k)" if "i < length xs div k" for i
  proof -
    have "Suc i * k \<le> length xs"
    proof -
      from that have "Suc i \<le> length xs div k" by simp
      then have "Suc i * k \<le> (length xs div k) * k" by (rule mult_le_mono1)
      also have "\<dots> \<le> length xs" by simp
      finally show ?thesis .
    qed
    then have le: "k - 1 \<le> length xs" using assms by (simp add: le_trans)
    have "Suc i * k = Suc ((k - 1) + i * k)" using assms by simp
    then have "(x # xs) ! (Suc i * k) = xs ! ((k - 1) + i * k)" by simp
    also have "\<dots> = drop (k - 1) xs ! (i * k)" using le by simp
    finally show ?thesis .
  qed
  have "stride (x # xs) k = map (\<lambda>i. (x # xs) ! (i * k)) [0..<Suc (length xs div k)]"
    unfolding stride_def cnt ..
  also have "\<dots> = x # map (\<lambda>i. (x # xs) ! (Suc i * k)) [0..<length xs div k]"
    by (simp only: upt_conv_Cons [of 0] zero_less_Suc if_True map_Suc_upt [symmetric]
        list.map map_map o_def) simp
  also have "map (\<lambda>i. (x # xs) ! (Suc i * k)) [0..<length xs div k]
             = map (\<lambda>i. drop (k - 1) xs ! (i * k)) [0..<length xs div k]"
    by (rule map_cong) (simp_all add: shift del: mult_Suc)
  also have "\<dots> = stride (drop (k - 1) xs) k"
    unfolding stride_def cnt' ..
  finally show ?thesis .
qed

lemma stride_keep_every: "0 < k \<Longrightarrow> stride a k = keep_every k a"
  by (induction k a rule: keep_every.induct) (simp_all add: stride_Nil stride_Cons)

lemma length_repeat_each: "length (repeat_each r a) = length a * r"
  by (induction a) (simp_all add: repeat_each_def)

lemma nth_repeat_each:
  "i < length a * r \<Longrightarrow> repeat_each r a ! i = a ! (i div r)"
proof (induction a arbitrary: i)
  case Nil
  then show ?case by simp
next
  case (Cons x a)
  show ?case
  proof (cases "i < r")
    case True
    then show ?thesis by (simp add: repeat_each_def nth_append)
  next
    case False
    then have "i - r < length a * r" using Cons.prems by simp
    from Cons.IH [OF this] have ih: "repeat_each r a ! (i - r) = a ! ((i - r) div r)" .
    have "0 < r" using Cons.prems by (cases r) simp_all
    with False have "i div r = Suc ((i - r) div r)"
      by (simp add: le_div_geq)
    with False ih show ?thesis by (simp add: repeat_each_def nth_append)
  qed
qed

lemma np_repeat_repeat_each:
  "0 \<le> r \<Longrightarrow> np_repeat a r = Inr (repeat_each (nat r) a)"
  unfolding np_repeat_def
  by (auto intro!: nth_equalityI simp: length_repeat_each nth_repeat_each)

lemma py_int_nonneg: "0 \<le> x \<Longrightarrow> py_int x = \<lfloor>x\<rfloor>"
  by (simp add: py_int_def)

lemma stride_silence: "stride one_second_of_silence 2 = replicate 12000 0"
proof -
  have "map (\<lambda>i. replicate 24000 (0::real) ! (i * 2)) [0..<12000] = map (\<lambda>i. 0) [0..<12000]"
    by (rule map_cong) simp_all
  then show ?thesis
    by (simp add: stride_def one_second_of_silence_def map_replicate_const)
qed

lemma repeat_silence:
  "map (\<lambda>i. one_second_of_silence ! (i div 2)) [0..<48000] = replicate 48000 0"
proof -
  have "map (\<lambda>i. replicate 24000 (0::real) ! (i div 2)) [0..<48000] = map (\<lambda>i. 0) [0..<48000]"
    by (rule map_cong) simp_all
  then show ?thesis
    by (simp add: one_second_of_silence_def map_replicate_const)
qed

lemma stride_one: "stride a (Suc 0) = a"
  by (simp add: stride_def map_nth)

lemma np_repeat_one: "np_repeat a 1 = Inr a"
  by (simp add: np_repeat_def map_nth)

subsection \<open>Speed adjustment without the time-stretch library\<close>

text \<open>Strictly between 0.5 and 2 both \<open>\<lfloor>speed\<rfloor>\<close> and \<open>\<lfloor>1 / speed\<rfloor>\<close> are 1, and the
  waveform is returned as it is. At 2 every second sample is kept, at 0.5 every sample is
  doubled.\<close>

lemma adjust_speed_fallback_unchanged:
  assumes "librosa e = None" and "1 / 2 < speed" and "speed < 2"
  shows "adjust_speed e audio speed = Inr audio"
proof (cases "speed = 1")
  case True
  then show ?thesis by (simp add: adjust_speed_def)
next
  case False
  show ?thesis
  proof (cases "1 < speed")
    case True
    with assms have "\<lfloor>speed\<rfloor> = 1" by linarith
    with True assms show ?thesis
      by (simp add: adjust_speed_def py_int_def np_slice_step_def stride_one)
  next
    case slow: False
    with False have lt: "speed < 1" by simp
    from assms have pos: "0 < speed" by simp
    from lt pos have "1 < 1 / speed" by simp
    moreover from assms pos have "1 / speed < 2" by (simp add: field_simps)
    ultimately have "\<lfloor>1 / speed\<rfloor> = 1" by linarith
    with lt pos assms False show ?thesis
      by (simp add: adjust_speed_def py_int_def np_repeat_one)
  qed
qed

lemma adjust_speed_silence_double:
  "librosa e = None \<Longrightarrow> adjust_speed e one_second_of_silence 2 = Inr (replicate 12000 0)"
  by (simp add: adjust_speed_def py_int_def np_slice_step_def stride_silence)

lemma adjust_speed_silence_half:
  "librosa e = None \<Longrightarrow> adjust_speed e one_second_of_silence (1 / 2) = Inr (replicate 48000 0)"
  using repeat_silence
  by (simp add: adjust_speed_def py_int_def np_repeat_def one_second_of_silence_def)

lemma time_stretch_nearest_silence:
  "time_stretch_nearest one_second_of_silence 2 = Inr (replicate 12000 0)"
proof -
  have "map (\<lambda>i. replicate 24000 (0::real) ! nat \<lfloor>real i * 2\<rfloor>) [0..<12000]
          = map (\<lambda>i. 0) [0..<12000]"
  proof (rule map_cong)
    fix i assume "i \<in> set [0..<12000]"
    then have "i < 12000" by simp
    moreover have "nat \<lfloor>real i * 2\<rfloor> = i * 2"
    proof -
      have "real i * 2 = of_int (int (i * 2))" by simp
      then have "\<lfloor>real i * 2\<rfloor> = int (i * 2)" by (simp only: floor_of_int)
      then show ?thesis by simp
    qed
    ultimately show "replicate 24000 (0::real) ! nat \<lfloor>real i * 2\<rfloor> = 0" by simp
  qed simp
  then show ?thesis
    by (simp add: time_stretch_nearest_def one_second_of_silence_def map_replicate_const)
qed

subsection \<open>Synthesis on a ready service\<close>

lemma synthesize_sync_silence:
  "pipeline txt voice = Inr [] \<Longrightarrow> synthesize_sync pipeline txt voice = Inr one_second_of_silence"
  by (simp add: synthesize_sync_def one_second_of_silence_def)

lemma synthesize_speech_ready:
  assumes "initialized s" and "kokoro_pipeline s = Some pipeline"
    and "synthesize_sync pipeline txt voice = Inr audio"
    and "adjust_speed e audio speed = Inr adjusted"
    and "sf_write e adjusted 24000 = Inr wav"
  shows "synthesize_speech e s txt voice speed pitch
           = (Inr wav, s\<lparr>calls := calls s @ [RunSynthesize txt voice]\<rparr>)"
proof (cases "speed = 1")
  case True
  with assms(4) have "adjusted = audio" by (simp add: adjust_speed_def)
  with True assms show ?thesis
    by (simp add: synthesize_speech_def audio_to_wav_bytes_def)
next
  case False
  with assms show ?thesis
    by (simp add: synthesize_speech_def audio_to_wav_bytes_def)
qed

lemma synthesize_speech_returns_writer_output:
  assumes "fst (synthesize_speech e s txt voice speed pitch) = Inr wav"
  shows "\<exists>audio. sf_write e audio 24000 = Inr wav"
  using assms
  by (auto simp: synthesize_speech_def audio_to_wav_bytes_def Let_def
      split: if_splits option.splits sum.splits)

subsection \<open>The reference container writer\<close>

lemma length_u16le: "length (u16le n) = 2"
  by (simp add: u16le_def)

lemma length_u32le: "length (u32le n) = 4"
  by (simp add: u32le_def length_u16le)

lemma length_pcm16: "length (pcm16 x) = 2"
  by (simp add: pcm16_def Let_def length_u16le)

lemma length_concat_pcm16: "length (concat (map pcm16 audio)) = 2 * length audio"
  by (induction audio) (simp_all add: length_pcm16)

lemma length_wav_file_bytes: "length (wav_file_bytes audio sample_rate) = 44 + 2 * length audio"
  by (simp add: wav_file_bytes_def ascii_def length_u16le length_u32le length_concat_pcm16)

lemma wav_pcm16_contract:
  "\<forall>audio. sf_write env_ok audio 24000 = Inr (wav_file_bytes audio 24000)
           \<and> wav_file_bytes audio 24000 \<noteq> []"
proof
  fix audio
  have "length (wav_file_bytes audio 24000) \<noteq> 0"
    by (simp add: length_wav_file_bytes)
  then show "sf_write env_ok audio 24000 = Inr (wav_file_bytes audio 24000)
           \<and> wav_file_bytes audio 24000 \<noteq> []"
    by (simp add: env_ok_def wav_pcm16_def del: length_0_conv)
qed

subsection \<open>Arithmetic of the confidence heuristic\<close>

lemma max_min_clamp: "max 0 (min 1 x) = clamp x 0 1"
  by (simp add: clamp_def max_def min_def)

lemma exp_half_ln_quarter: "exp (ln (1 / 4) / 2) = (1 / 2 :: real)"
proof -
  have "ln (1 / 4 :: real) = ln ((1 / 2) ^ 2)" by (simp add: power2_eq_square)
  also have "\<dots> = 2 * ln (1 / 2)" by (simp add: ln_realpow)
  finally have "ln (1 / 4 :: real) / 2 = ln (1 / 2)" by simp
  then show ?thesis by (simp only: exp_ln_iff)
qed

lemma default_logprobs:
  "map ((\<lambda>seg. case seg ''avg_logprob'' of None \<Rightarrow> 0 | Some v \<Rightarrow> v)
         \<circ> (\<lambda>seg. case seg ''avg_logprob'' of
                     None \<Rightarrow> seg(''avg_logprob'' \<mapsto> (0::real)) | Some v \<Rightarrow> seg)) segs
   = map (\<lambda>seg. case seg ''avg_logprob'' of None \<Rightarrow> 0 | Some v \<Rightarrow> v) segs"
  by (rule map_cong) (auto split: option.splits)

subsection \<open>A successful transcription\<close>

text \<open>On the reference environment the text is trimmed, the confidence is \<open>exp 0 = 1\<close>,
  one inference is handed to the executor, and the storage is empty again afterwards.\<close>

lemma strip_hello: "strip '' hello '' = ''hello''"
  by (simp add: strip_def isspace_def)

lemma transcribe_audio_example:
  "transcribe_audio env_ok ready_service [82, 73, 70, 70] ''auto''
     = (Inr \<lparr>out_text = ''hello'', out_language = ''en'', out_confidence = 1, out_duration = 1\<rparr>,
        ready_service\<lparr>calls := [RunTranscribe ''/tmp/tmpa1b2c3.wav'' ''auto'']\<rparr>)"
  by (simp add: transcribe_audio_def ready_service_def env_ok_def transcribe_sync_def
      whisper_hello_def build_transcription_def calculate_confidence_def segment_with_def
      unlink_if_exists_def strip_hello)

section \<open>Staging file of the transcription pipeline\<close>

text \<open>
  Once the audio bytes have been written to the staging file, the file is gone when
  \<open>transcribe_audio\<close> returns or raises, whatever the engine did: success, an exception of
  the engine, or a result without the \<^verbatim>\<open>text\<close> key. No other path of the storage is
  touched.
\<close>

theorem staging_file_removed_after_staging:
  assumes "initialized s" and "whisper_model s \<noteq> None"
    and "named_temporary_file e = Inr p" and "write_file e audio_data = None"
  shows "p \<notin> files (snd (transcribe_audio e s audio_data language))
       \<and> files (snd (transcribe_audio e s audio_data language)) = files s - {p}"
  using assms
  by (auto simp: transcribe_audio_def unlink_if_exists_def Let_def
      split: sum.splits option.splits)

theorem staging_file_removed_after_staging_witness:
  "initialized failing_engine_service \<and> whisper_model failing_engine_service \<noteq> None
   \<and> named_temporary_file env_ok = Inr ''/tmp/tmpa1b2c3.wav''
   \<and> write_file env_ok [82, 73, 70, 70] = None
   \<and> fst (transcribe_audio env_ok failing_engine_service [82, 73, 70, 70] ''auto'')
        = Inl (RuntimeError ''Transcription failed: CUDA out of memory'')
   \<and> files (snd (transcribe_audio env_ok failing_engine_service [82, 73, 70, 70] ''auto'')) = {}"
proof -
  have i: "initialized failing_engine_service"
    and m: "whisper_model failing_engine_service \<noteq> None"
    and f: "files failing_engine_service = {}"
    by (simp_all add: failing_engine_service_def ready_service_def)
  have p: "named_temporary_file env_ok = Inr ''/tmp/tmpa1b2c3.wav''"
    and w: "write_file env_ok [82, 73, 70, 70] = None"
    by (simp_all add: env_ok_def)
  have r: "fst (transcribe_audio env_ok failing_engine_service [82, 73, 70, 70] ''auto'')
        = Inl (RuntimeError ''Transcription failed: CUDA out of memory'')"
    by (simp add: transcribe_audio_def failing_engine_service_def ready_service_def env_ok_def
        transcribe_sync_def whisper_failing_def unlink_if_exists_def)
  show ?thesis
    using staging_file_removed_after_staging [OF i m p w, of "''auto''"] i m p w f r
    by simp
qed

text \<open>
  Claim C1 says that the staging file is removed on every exit path of \<open>transcribe_audio\<close>,
  a failure while writing the audio bytes included. The code creates and fills the file
  before it enters the \<^verbatim>\<open>try ... finally\<close> that unlinks it: when the write raises, the
  call fails with the wrapped error and the file that was just created stays on storage.
\<close>

theorem transcribe_audio_write_failure_keeps_file:
  assumes "initialized s" and "whisper_model s \<noteq> None"
    and "named_temporary_file e = Inr p" and "write_file e audio_data = Some ex"
  shows "transcribe_audio e s audio_data language
           = (Inl (RuntimeError (''Transcription failed: '' @ ex)),
              s\<lparr>files := insert p (files s)\<rparr>)"
  using assms by (simp add: transcribe_audio_def)

theorem transcribe_audio_write_failure_keeps_file_witness:
  "initialized ready_service \<and> whisper_model ready_service \<noteq> None
   \<and> named_temporary_file env_disk_full = Inr ''/tmp/tmpa1b2c3.wav''
   \<and> write_file env_disk_full [82, 73, 70, 70] = Some ''[Errno 28] No space left on device''
   \<and> files ready_service = {}
   \<and> fst (transcribe_audio env_disk_full ready_service [82, 73, 70, 70] ''auto'')
        = Inl (RuntimeError ''Transcription failed: [Errno 28] No space left on device'')
   \<and> files (snd (transcribe_audio env_disk_full ready_service [82, 73, 70, 70] ''auto''))
        = {''/tmp/tmpa1b2c3.wav''}"
proof -
  have i: "initialized ready_service" and m: "whisper_model ready_service \<noteq> None"
    and f: "files ready_service = {}"
    by (simp_all add: ready_service_def)
  have p: "named_temporary_file env_disk_full = Inr ''/tmp/tmpa1b2c3.wav''"
    and w: "write_file env_disk_full [82, 73, 70, 70] = Some ''[Errno 28] No space left on device''"
    by (simp_all add: env_disk_full_def env_ok_def)
  show ?thesis
    using transcribe_audio_write_failure_keeps_file [OF i m p w, of "''auto''"] i m p w f
    by simp
qed

section \<open>Confidence derivation\<close>

text \<open>
  Claim C2. When the engine result holds a non-empty list of segments that all carry
  \<^verbatim>\<open>avg_logprob\<close>, the confidence is \<open>clamp (exp (mean logprobs)) 0 1\<close>; when the result
  has no segments (the key is missing or the list is empty), the confidence is exactly
  \<open>0.8\<close>; in every case it lies between 0 and 1.
\<close>

theorem calculate_confidence_spec:
  "(res_segments r = Some segs \<and> segs \<noteq> []
      \<and> (\<forall>seg \<in> set segs. seg ''avg_logprob'' \<noteq> None) \<longrightarrow>
      calculate_confidence r
        = clamp (exp (mean (map (\<lambda>seg. the (seg ''avg_logprob'')) segs))) 0 1)
   \<and> (res_segments r = None \<or> res_segments r = Some [] \<longrightarrow> calculate_confidence r = 0.8)
   \<and> 0 \<le> calculate_confidence r \<and> calculate_confidence r \<le> 1"
proof (intro conjI impI)
  assume h: "res_segments r = Some segs \<and> segs \<noteq> []
      \<and> (\<forall>seg \<in> set segs. seg ''avg_logprob'' \<noteq> None)"
  then have "map (\<lambda>seg. case seg ''avg_logprob'' of None \<Rightarrow> 0 | Some v \<Rightarrow> v) segs
           = map (\<lambda>seg. the (seg ''avg_logprob'')) segs"
    by (intro map_cong) auto
  moreover from h have "calculate_confidence r
        = clamp (exp (mean (map (\<lambda>seg. case seg ''avg_logprob'' of
                                         None \<Rightarrow> 0 | Some v \<Rightarrow> v) segs))) 0 1"
    by (simp add: calculate_confidence_def mean_def max_min_clamp)
  ultimately show "calculate_confidence r
        = clamp (exp (mean (map (\<lambda>seg. the (seg ''avg_logprob'')) segs))) 0 1"
    by (simp only:)
next
  assume "res_segments r = None \<or> res_segments r = Some []"
  then show "calculate_confidence r = 0.8"
    by (auto simp: calculate_confidence_def)
next
  show "0 \<le> calculate_confidence r"
    by (simp add: calculate_confidence_def Let_def split: option.splits)
next
  show "calculate_confidence r \<le> 1"
    by (simp add: calculate_confidence_def Let_def split: option.splits)
qed

theorem calculate_confidence_spec_witness:
  "res_segments result_two_segments = Some [segment_with (ln (1 / 4)), segment_with 0]
   \<and> calculate_confidence result_two_segments = 1 / 2
   \<and> res_segments result_no_segments = None
   \<and> calculate_confidence result_no_segments = 0.8"
proof -
  have "clamp (exp (mean [ln (1 / 4), 0])) 0 1 = 1 / 2"
    by (simp add: mean_def exp_half_ln_quarter clamp_def)
  then show ?thesis
    using calculate_confidence_spec [of result_two_segments
        "[segment_with (ln (1 / 4)), segment_with 0]"]
      calculate_confidence_spec [of result_no_segments]
    by (simp add: result_two_segments_def result_no_segments_def segment_with_def)
qed

text \<open>
  Claim C10. A segment without \<^verbatim>\<open>avg_logprob\<close> counts as log-probability 0: giving each
  such segment an explicit \<open>0\<close> leaves the confidence unchanged. So a non-empty list of
  segments that all lack the key yields confidence 1, not the fallback \<open>0.8\<close>.
\<close>

theorem missing_avg_logprob_counts_as_zero:
  "(res_segments r = Some segs \<longrightarrow>
      calculate_confidence r
        = calculate_confidence
            (r\<lparr>res_segments :=
                 Some (map (\<lambda>seg. case seg ''avg_logprob'' of
                                     None \<Rightarrow> seg(''avg_logprob'' \<mapsto> 0)
                                   | Some v \<Rightarrow> seg) segs)\<rparr>))
   \<and> (res_segments r = Some segs \<and> segs \<noteq> []
        \<and> (\<forall>seg \<in> set segs. seg ''avg_logprob'' = None) \<longrightarrow>
        calculate_confidence r = 1)"
proof (intro conjI impI)
  assume h: "res_segments r = Some segs"
  with default_logprobs [of segs] show "calculate_confidence r
        = calculate_confidence
            (r\<lparr>res_segments :=
                 Some (map (\<lambda>seg. case seg ''avg_logprob'' of
                                     None \<Rightarrow> seg(''avg_logprob'' \<mapsto> 0)
                                   | Some v \<Rightarrow> seg) segs)\<rparr>)"
    by (simp add: calculate_confidence_def del: map_eq_conv)
next
  assume h: "res_segments r = Some segs \<and> segs \<noteq> []
      \<and> (\<forall>seg \<in> set segs. seg ''avg_logprob'' = None)"
  then have "map (\<lambda>seg. case seg ''avg_logprob'' of None \<Rightarrow> 0 | Some v \<Rightarrow> v) segs
           = map (\<lambda>seg. 0 :: real) segs"
    by (intro map_cong) auto
  then have "sum_list (map (\<lambda>seg. case seg ''avg_logprob'' of
                                     None \<Rightarrow> 0 | Some v \<Rightarrow> v) segs) = (0 :: real)"
    by (simp only:) simp
  with h show "calculate_confidence r = 1"
    by (simp add: calculate_confidence_def)
qed

theorem missing_avg_logprob_counts_as_zero_witness:
  "res_segments result_bare_segments = Some [Map.empty, [''text'' \<mapsto> 5]]
   \<and> calculate_confidence result_bare_segments = 1
   \<and> calculate_confidence result_bare_segments \<noteq> 0.8"
  using missing_avg_logprob_counts_as_zero
    [of result_bare_segments "[Map.empty, [''text'' \<mapsto> 5]]"]
  by (simp add: result_bare_segments_def)

section \<open>Synthesis pipeline: silence and speed\<close>

text \<open>
  Claim C3, as stated, fails: the silence that replaces an empty engine output goes through
  the speed adjustment like any other waveform. At speed 2, without the time-stretch
  library, every second sample is kept and the bytes returned encode 12000 samples, half a
  second, not one second. (The parameters are valid: the text has 11 characters and the
  speed lies in the range from 0.5 to 2.)
\<close>

theorem synthesize_speech_silence_counterexample:
  "fst (synthesize_speech env_ok ready_service ''Hello world'' ''af_heart'' 2 1)
     = Inr (wav_file_bytes (replicate 12000 0) 24000)
   \<and> fst (synthesize_speech env_ok ready_service ''Hello world'' ''af_heart'' 2 1)
     \<noteq> Inr (wav_file_bytes one_second_of_silence 24000)"
proof -
  have a: "adjust_speed env_ok one_second_of_silence 2 = Inr (replicate 12000 0)"
    by (simp add: adjust_speed_def env_ok_def py_int_def np_slice_step_def stride_silence)
  have r: "fst (synthesize_speech env_ok ready_service ''Hello world'' ''af_heart'' 2 1)
     = Inr (wav_file_bytes (replicate 12000 0) 24000)"
    using a
    by (simp add: synthesize_speech_def ready_service_def synthesize_sync_def kokoro_silent_def
        one_second_of_silence_def audio_to_wav_bytes_def env_ok_def wav_pcm16_def)
  have "length (wav_file_bytes (replicate 12000 0) 24000)
          \<noteq> length (wav_file_bytes one_second_of_silence 24000)"
    by (simp add: length_wav_file_bytes one_second_of_silence_def)
  then have "wav_file_bytes (replicate 12000 0) 24000
               \<noteq> wav_file_bytes one_second_of_silence 24000"
    by auto
  with r show ?thesis by simp
qed

text \<open>
  Claim C3, amended. For every valid input, when the engine yields zero segments the
  bytes returned are the container writer's encoding, at 24000 Hz, of the substituted
  second of silence after speed adjustment, and they are never empty, for a writer that
  succeeds and never produces an empty encoding (\<open>enc\<close> below). The encoded waveform is
  exactly one second of silence, 24000 zero samples, at speed 1 and, without the
  time-stretch library, at every speed strictly between 0.5 and 2. Without the library it
  is 12000 zero samples at speed 2 and 48000 zero samples at speed 0.5. With the
  library, at a speed other than 1, it is what the library returns for the silence.
\<close>

theorem synthesize_speech_zero_segments:
  assumes "initialized s" and "kokoro_pipeline s = Some pipeline"
    and "pipeline txt voice = Inr []"
    and "\<forall>audio. sf_write e audio 24000 = Inr (enc audio) \<and> enc audio \<noteq> []"
  shows "(speed = 1 \<or> (librosa e = None \<and> 1 / 2 < speed \<and> speed < 2) \<longrightarrow>
            synthesize_speech e s txt voice speed pitch
              = (Inr (enc one_second_of_silence),
                 s\<lparr>calls := calls s @ [RunSynthesize txt voice]\<rparr>))
       \<and> (librosa e = None \<and> speed = 2 \<longrightarrow>
            synthesize_speech e s txt voice speed pitch
              = (Inr (enc (replicate 12000 0)),
                 s\<lparr>calls := calls s @ [RunSynthesize txt voice]\<rparr>))
       \<and> (librosa e = None \<and> speed = 1 / 2 \<longrightarrow>
            synthesize_speech e s txt voice speed pitch
              = (Inr (enc (replicate 48000 0)),
                 s\<lparr>calls := calls s @ [RunSynthesize txt voice]\<rparr>))
       \<and> (\<forall>time_stretch stretched.
            librosa e = Some time_stretch \<and> speed \<noteq> 1
              \<and> time_stretch one_second_of_silence speed = Inr stretched \<longrightarrow>
            synthesize_speech e s txt voice speed pitch
              = (Inr (enc stretched),
                 s\<lparr>calls := calls s @ [RunSynthesize txt voice]\<rparr>))
       \<and> (\<forall>wav. fst (synthesize_speech e s txt voice speed pitch) = Inr wav \<longrightarrow> wav \<noteq> [])"
proof (intro conjI impI allI)
  have sync: "synthesize_sync pipeline txt voice = Inr one_second_of_silence"
    using assms(3) by (rule synthesize_sync_silence)
  from assms(4) have w: "sf_write e audio 24000 = Inr (enc audio)" for audio by simp
  {
    assume "speed = 1 \<or> (librosa e = None \<and> 1 / 2 < speed \<and> speed < 2)"
    then have "adjust_speed e one_second_of_silence speed = Inr one_second_of_silence"
      by (auto simp: adjust_speed_fallback_unchanged) (simp add: adjust_speed_def)
    from synthesize_speech_ready [OF assms(1,2) sync this w]
    show "synthesize_speech e s txt voice speed pitch
              = (Inr (enc one_second_of_silence),
                 s\<lparr>calls := calls s @ [RunSynthesize txt voice]\<rparr>)" .
  }
  {
    assume "librosa e = None \<and> speed = 2"
    then have l: "librosa e = None" and sp: "speed = 2" by blast+
    have "adjust_speed e one_second_of_silence speed = Inr (replicate 12000 0)"
      unfolding sp using l by (rule adjust_speed_silence_double)
    from synthesize_speech_ready [OF assms(1,2) sync this w]
    show "synthesize_speech e s txt voice speed pitch
              = (Inr (enc (replicate 12000 0)),
                 s\<lparr>calls := calls s @ [RunSynthesize txt voice]\<rparr>)" .
  }
  {
    assume "librosa e = None \<and> speed = 1 / 2"
    then have l: "librosa e = None" and sp: "speed = 1 / 2" by blast+
    have "adjust_speed e one_second_of_silence speed = Inr (replicate 48000 0)"
      unfolding sp using l by (rule adjust_speed_silence_half)
    from synthesize_speech_ready [OF assms(1,2) sync this w]
    show "synthesize_speech e s txt voice speed pitch
              = (Inr (enc (replicate 48000 0)),
                 s\<lparr>calls := calls s @ [RunSynthesize txt voice]\<rparr>)" .
  }
  {
    fix time_stretch stretched
    assume "librosa e = Some time_stretch \<and> speed \<noteq> 1
              \<and> time_stretch one_second_of_silence speed = Inr stretched"
    then have "adjust_speed e one_second_of_silence speed = Inr stretched"
      by (simp add: adjust_speed_def)
    from synthesize_speech_ready [OF assms(1,2) sync this w]
    show "synthesize_speech e s txt voice speed pitch
              = (Inr (enc stretched),
                 s\<lparr>calls := calls s @ [RunSynthesize txt voice]\<rparr>)" .
  }
  {
    fix wav
    assume "fst (synthesize_speech e s txt voice speed pitch) = Inr wav"
    then obtain audio where "sf_write e audio 24000 = Inr wav"
      using synthesize_speech_returns_writer_output by blast
    with assms(4) have "wav = enc audio" by simp
    with assms(4) show "wav \<noteq> []" by simp
  }
qed

theorem synthesize_speech_zero_segments_witness:
  "initialized ready_service \<and> kokoro_pipeline ready_service = Some kokoro_silent
   \<and> kokoro_silent ''Hello world'' ''af_heart'' = Inr []
   \<and> (\<forall>audio. sf_write env_ok audio 24000 = Inr (wav_file_bytes audio 24000)
               \<and> wav_file_bytes audio 24000 \<noteq> [])
   \<and> fst (synthesize_speech env_ok ready_service ''Hello world'' ''af_heart'' 1 1)
        = Inr (wav_file_bytes one_second_of_silence 24000)
   \<and> fst (synthesize_speech env_ok ready_service ''Hello world'' ''af_heart'' (3 / 2) 1)
        = Inr (wav_file_bytes one_second_of_silence 24000)
   \<and> fst (synthesize_speech env_ok ready_service ''Hello world'' ''af_heart'' 2 1)
        = Inr (wav_file_bytes (replicate 12000 0) 24000)
   \<and> fst (synthesize_speech env_ok ready_service ''Hello world'' ''af_heart'' (1 / 2) 1)
        = Inr (wav_file_bytes (replicate 48000 0) 24000)
   \<and> fst (synthesize_speech env_librosa ready_service ''Hello world'' ''af_heart'' 2 1)
        = Inr (wav_file_bytes (replicate 12000 0) 24000)
   \<and> length (wav_file_bytes one_second_of_silence 24000) = 48044"
proof -
  have i: "initialized ready_service"
    and k: "kokoro_pipeline ready_service = Some kokoro_silent"
    by (simp_all add: ready_service_def)
  have z: "kokoro_silent ''Hello world'' ''af_heart'' = Inr []"
    by (simp add: kokoro_silent_def)
  note w = wav_pcm16_contract
  have w': "\<forall>audio. sf_write env_librosa audio 24000 = Inr (wav_file_bytes audio 24000)
           \<and> wav_file_bytes audio 24000 \<noteq> []"
    using w by (simp add: env_librosa_def)
  have n: "librosa env_ok = None" by (simp add: env_ok_def)
  have t: "librosa env_librosa = Some time_stretch_nearest" by (simp add: env_librosa_def)
  have l: "length (wav_file_bytes one_second_of_silence 24000) = 48044"
    by (simp add: length_wav_file_bytes one_second_of_silence_def)
  have "fst (synthesize_speech env_ok ready_service ''Hello world'' ''af_heart'' 1 1)
        = Inr (wav_file_bytes one_second_of_silence 24000)"
    using synthesize_speech_zero_segments [OF i k z w, of 1 1] by simp
  moreover
  have "fst (synthesize_speech env_ok ready_service ''Hello world'' ''af_heart'' (3 / 2) 1)
        = Inr (wav_file_bytes one_second_of_silence 24000)"
    using synthesize_speech_zero_segments [OF i k z w, of "3 / 2" 1] n by simp
  moreover
  have "fst (synthesize_speech env_ok ready_service ''Hello world'' ''af_heart'' 2 1)
        = Inr (wav_file_bytes (replicate 12000 0) 24000)"
    using synthesize_speech_zero_segments [OF i k z w, of 2 1] n by simp
  moreover
  have "fst (synthesize_speech env_ok ready_service ''Hello world'' ''af_heart'' (1 / 2) 1)
        = Inr (wav_file_bytes (replicate 48000 0) 24000)"
    using synthesize_speech_zero_segments [OF i k z w, of "1 / 2" 1] n by simp
  moreover
  have "fst (synthesize_speech env_librosa ready_service ''Hello world'' ''af_heart'' 2 1)
        = Inr (wav_file_bytes (replicate 12000 0) 24000)"
    using synthesize_speech_zero_segments [OF i k z w', of 2 1] t time_stretch_nearest_silence
    by simp
  ultimately show ?thesis using i k z w l by simp
qed

text \<open>
  Claim C5. Without the time-stretch library, a speed above 1 keeps every
  \<open>\<lfloor>speed\<rfloor>\<close>-th sample, and a speed below 1 repeats each sample \<open>\<lfloor>1 / speed\<rfloor>\<close> times.
  Speeds are positive: the request model admits the range from 0.5 to 2 only.
\<close>

theorem adjust_speed_fallback:
  assumes "librosa e = None"
  shows "(1 < speed \<longrightarrow>
            adjust_speed e audio speed = Inr (keep_every (nat \<lfloor>speed\<rfloor>) audio))
       \<and> (0 < speed \<and> speed < 1 \<longrightarrow>
            adjust_speed e audio speed = Inr (repeat_each (nat \<lfloor>1 / speed\<rfloor>) audio))"
proof (intro conjI impI)
  assume fast: "1 < speed"
  then have "1 \<le> \<lfloor>speed\<rfloor>" by linarith
  then have pos: "0 < \<lfloor>speed\<rfloor>" and ne: "\<lfloor>speed\<rfloor> \<noteq> 0" by linarith+
  from pos have "0 < nat \<lfloor>speed\<rfloor>" by simp
  then have "stride audio (nat \<lfloor>speed\<rfloor>) = keep_every (nat \<lfloor>speed\<rfloor>) audio"
    by (rule stride_keep_every)
  with fast pos ne assms
  show "adjust_speed e audio speed = Inr (keep_every (nat \<lfloor>speed\<rfloor>) audio)"
    by (simp add: adjust_speed_def py_int_nonneg np_slice_step_def)
next
  assume slow: "0 < speed \<and> speed < 1"
  then have "0 \<le> 1 / speed" by simp
  then have fl: "py_int (1 / speed) = \<lfloor>1 / speed\<rfloor>" by (rule py_int_nonneg)
  have "0 \<le> \<lfloor>1 / speed\<rfloor>" using slow by simp
  then have "np_repeat audio \<lfloor>1 / speed\<rfloor> = Inr (repeat_each (nat \<lfloor>1 / speed\<rfloor>) audio)"
    by (rule np_repeat_repeat_each)
  with slow assms fl
  show "adjust_speed e audio speed = Inr (repeat_each (nat \<lfloor>1 / speed\<rfloor>) audio)"
    by (simp add: adjust_speed_def)
qed

theorem adjust_speed_fallback_witness:
  "librosa env_ok = None \<and> (1::real) < 2 \<and> (0::real) < 1 / 2 \<and> (1 / 2 :: real) < 1
   \<and> adjust_speed env_ok [1, 2, 3, 4, 5] 2 = Inr [1, 3, 5]
   \<and> adjust_speed env_ok [1, 2, 3] (1 / 2) = Inr [1, 1, 2, 2, 3, 3]"
proof -
  have l: "librosa env_ok = None" by (simp add: env_ok_def)
  have "adjust_speed env_ok [1, 2, 3, 4, 5] 2
          = Inr (keep_every (nat \<lfloor>2::real\<rfloor>) [1, 2, 3, 4, 5])"
    using adjust_speed_fallback [OF l, of 2 "[1, 2, 3, 4, 5]"] by simp
  moreover have "adjust_speed env_ok [1, 2, 3] (1 / 2)
        = Inr (repeat_each (nat \<lfloor>1 / (1 / 2 :: real)\<rfloor>) [1, 2, 3])"
    using adjust_speed_fallback [OF l, of "1 / 2" "[1, 2, 3]"] by simp
  ultimately show ?thesis using l
    by (simp add: repeat_each_def numeral_2_eq_2)
qed

text \<open>
  Claim C6. At speed 1 the speed adjustment is the identity, and \<open>synthesize_speech\<close>
  hands the synthesized waveform to the container writer as it is: no sample is added,
  dropped or changed.
\<close>

theorem speed_one_is_identity:
  "adjust_speed e audio 1 = Inr audio
   \<and> (initialized s \<and> kokoro_pipeline s = Some pipeline
        \<and> synthesize_sync pipeline txt voice = Inr audio \<longrightarrow>
      synthesize_speech e s txt voice 1 pitch
        = (case audio_to_wav_bytes e audio 24000 of
             Inl ex \<Rightarrow> Inl (RuntimeError (''Speech synthesis failed: '' @ ex))
           | Inr wav \<Rightarrow> Inr wav,
           s\<lparr>calls := calls s @ [RunSynthesize txt voice]\<rparr>))"
  by (auto simp: adjust_speed_def synthesize_speech_def split: sum.splits)

theorem speed_one_is_identity_witness:
  "initialized ready_chunks_service \<and> kokoro_pipeline ready_chunks_service = Some kokoro_chunks
   \<and> synthesize_sync kokoro_chunks ''Hello world'' ''af_heart'' = Inr [1 / 2, 1 / 4, 0, - 1 / 2]
   \<and> adjust_speed env_ok [1 / 2, 1 / 4, 0, - 1 / 2] 1 = Inr [1 / 2, 1 / 4, 0, - 1 / 2]
   \<and> fst (synthesize_speech env_ok ready_chunks_service ''Hello world'' ''af_heart'' 1 1)
        = Inr (wav_file_bytes [1 / 2, 1 / 4, 0, - 1 / 2] 24000)"
proof -
  have i: "initialized ready_chunks_service"
    and k: "kokoro_pipeline ready_chunks_service = Some kokoro_chunks"
    by (simp_all add: ready_chunks_service_def ready_service_def)
  have y: "synthesize_sync kokoro_chunks ''Hello world'' ''af_heart''
             = Inr [1 / 2, 1 / 4, 0, - 1 / 2]"
    by (simp add: synthesize_sync_def kokoro_chunks_def)
  have w: "audio_to_wav_bytes env_ok [1 / 2, 1 / 4, 0, - 1 / 2] 24000
             = Inr (wav_file_bytes [1 / 2, 1 / 4, 0, - 1 / 2] 24000)"
    by (simp add: audio_to_wav_bytes_def env_ok_def wav_pcm16_def)
  show ?thesis
    using speed_one_is_identity [of env_ok "[1 / 2, 1 / 4, 0, - 1 / 2]" ready_chunks_service
        kokoro_chunks "''Hello world''" "''af_heart''" 1] i k y w
    by simp
qed

section \<open>Lifecycle properties\<close>

text \<open>
  Claim C9. While the service is not initialized, or the handle a call needs is absent,
  \<open>transcribe_audio\<close> and \<open>synthesize_speech\<close> raise at once. The service, the storage
  and the trace of external calls are exactly as before: no staging file was created and
  no inference was handed to the executor.
\<close>

theorem uninitialized_calls_rejected:
  "(\<not> initialized s \<or> whisper_model s = None \<longrightarrow>
      transcribe_audio e s audio_data language
        = (Inl (RuntimeError ''Whisper model not initialized''), s))
   \<and> (\<not> initialized s \<or> kokoro_pipeline s = None \<longrightarrow>
      synthesize_speech e s txt voice speed pitch
        = (Inl (RuntimeError ''Kokoro pipeline not initialized''), s))"
  by (simp add: transcribe_audio_def synthesize_speech_def)

theorem uninitialized_calls_rejected_witness:
  "\<not> initialized (init_service {})
   \<and> transcribe_audio env_ok (init_service {}) [82, 73, 70, 70] ''auto''
        = (Inl (RuntimeError ''Whisper model not initialized''), init_service {})
   \<and> synthesize_speech env_ok (init_service {}) ''Hello world'' ''af_heart'' 1 1
        = (Inl (RuntimeError ''Kokoro pipeline not initialized''), init_service {})"
  using uninitialized_calls_rejected [of "init_service {}" env_ok "[82, 73, 70, 70]" "''auto''"
      "''Hello world''" "''af_heart''" 1 1]
  by (simp add: init_service_def)

text \<open>
  Claim C4. When \<open>initialize\<close> raises, a partial failure included (the first model loaded,
  the load of the second threw), the \<open>initialized\<close> flag is false afterwards, and a
  following \<open>transcribe_audio\<close> or \<open>synthesize_speech\<close>, in any environment, fails at its
  guard and leaves the service, the storage and the trace of external calls as they
  were. As the state does not change, the same holds for every later such call.
\<close>

theorem failed_initialization_unusable:
  assumes "initialize e s = (Inl err, s')"
  shows "\<not> initialized s'
       \<and> transcribe_audio e' s' audio_data language
           = (Inl (RuntimeError ''Whisper model not initialized''), s')
       \<and> synthesize_speech e' s' txt voice speed pitch
           = (Inl (RuntimeError ''Kokoro pipeline not initialized''), s')"
proof -
  from assms have "\<not> initialized s'"
    by (auto simp: initialize_def Let_def split: sum.splits if_splits)
  then show ?thesis
    by (simp add: transcribe_audio_def synthesize_speech_def)
qed

theorem failed_initialization_unusable_witness:
  "initialize env_kokoro_fails (init_service {})
     = (Inl (Raised ''voice pack not found''), half_loaded_service)
   \<and> whisper_model half_loaded_service = Some whisper_hello
   \<and> \<not> initialized half_loaded_service
   \<and> transcribe_audio env_ok half_loaded_service [82, 73, 70, 70] ''auto''
        = (Inl (RuntimeError ''Whisper model not initialized''), half_loaded_service)
   \<and> synthesize_speech env_ok half_loaded_service ''Hello world'' ''af_heart'' 1 1
        = (Inl (RuntimeError ''Kokoro pipeline not initialized''), half_loaded_service)"
proof -
  have f: "initialize env_kokoro_fails (init_service {})
     = (Inl (Raised ''voice pack not found''), half_loaded_service)"
    by (simp add: initialize_def init_service_def env_kokoro_fails_def env_ok_def
        half_loaded_service_def)
  have w: "whisper_model half_loaded_service = Some whisper_hello"
    by (simp add: half_loaded_service_def)
  show ?thesis
    using failed_initialization_unusable [OF f, of env_ok "[82, 73, 70, 70]" "''auto''"
        "''Hello world''" "''af_heart''" 1 1] f w
    by simp
qed

text \<open>
  Claim C7. \<open>initialize\<close> on an initialized service returns at once: the service and the
  trace of external calls are unchanged, so no model is loaded again. After a successful
  first call, a second call succeeds, whatever the loaders would do, and reports the same
  health status. In one environment, the health status after two calls equals the health
  status after one.
\<close>

theorem initialize_idempotent:
  "(initialized s \<longrightarrow> initialize e s = (Inr (), s))
   \<and> (initialize e s = (Inr (), s1) \<longrightarrow>
        initialized s1 \<and> initialize e' s1 = (Inr (), s1)
        \<and> get_health_status (snd (initialize e' s1)) = get_health_status s1)
   \<and> get_health_status (snd (initialize e (snd (initialize e s))))
        = get_health_status (snd (initialize e s))"
proof (intro conjI impI)
  assume "initialized s"
  then show "initialize e s = (Inr (), s)"
    by (simp add: initialize_def)
next
  assume ok: "initialize e s = (Inr (), s1)"
  then show "initialized s1"
    by (auto simp: initialize_def Let_def split: sum.splits if_splits)
  then show "initialize e' s1 = (Inr (), s1)"
    by (simp add: initialize_def)
  then show "get_health_status (snd (initialize e' s1)) = get_health_status s1"
    by simp
next
  show "get_health_status (snd (initialize e (snd (initialize e s))))
        = get_health_status (snd (initialize e s))"
    by (simp add: initialize_def get_health_status_def Let_def split: sum.splits)
qed

theorem initialize_idempotent_witness:
  "initialize env_ok (init_service {}) = (Inr (), loaded_service)
   \<and> initialized loaded_service
   \<and> initialize env_kokoro_fails loaded_service = (Inr (), loaded_service)
   \<and> get_health_status (snd (initialize env_kokoro_fails loaded_service))
        = [''whisper'' \<mapsto> True, ''kokoro'' \<mapsto> True, ''initialized'' \<mapsto> True]"
proof -
  have once: "initialize env_ok (init_service {}) = (Inr (), loaded_service)"
    by (simp add: initialize_def init_service_def env_ok_def loaded_service_def ready_service_def)
  have h: "get_health_status loaded_service
        = [''whisper'' \<mapsto> True, ''kokoro'' \<mapsto> True, ''initialized'' \<mapsto> True]"
    by (simp add: get_health_status_def loaded_service_def ready_service_def)
  show ?thesis
    using initialize_idempotent [of "init_service {}" env_ok loaded_service env_kokoro_fails]
      once h
    by simp
qed

text \<open>
  Claim C8. \<open>cleanup\<close> returns normally from every state, a fresh or a half-loaded
  service included: both handles are absent afterwards, the health status reports
  \<open>initialized\<close> as false, and the storage is untouched.
\<close>

theorem cleanup_safe:
  "fst (cleanup e s) = Inr ()
   \<and> whisper_model (snd (cleanup e s)) = None
   \<and> kokoro_pipeline (snd (cleanup e s)) = None
   \<and> initialized (snd (cleanup e s)) = False
   \<and> get_health_status (snd (cleanup e s))
       = [''whisper'' \<mapsto> False, ''kokoro'' \<mapsto> False, ''initialized'' \<mapsto> False]
   \<and> files (snd (cleanup e s)) = files s"
  by (simp add: cleanup_def get_health_status_def Let_def)

theorem cleanup_safe_witness:
  "cleanup env_ok (init_service {}) = (Inr (), init_service {})
   \<and> fst (cleanup env_ok half_loaded_service) = Inr ()
   \<and> whisper_model (snd (cleanup env_ok half_loaded_service)) = None
   \<and> get_health_status (snd (cleanup env_ok half_loaded_service)) ''initialized'' = Some False"
proof -
  have "cleanup env_ok (init_service {}) = (Inr (), init_service {})"
    by (simp add: cleanup_def init_service_def env_ok_def)
  then show ?thesis
    using cleanup_safe [of env_ok half_loaded_service] by simp
qed

end
